theory Spec2Isabelle
  imports Main "HOL-Library.Sublist"
begin

section \<open>Board access control of the Trello MCP server\<close>

text \<open>
  A shallow embedding of \<^verbatim>\<open>src/utils/board-access-control.ts\<close>,
  \<^verbatim>\<open>src/utils/card-access-control.ts\<close> and of the tool handlers of
  \<^verbatim>\<open>src/tools/card-tool-handlers.ts\<close> and \<^verbatim>\<open>src/tools/list-tool-handlers.ts\<close>
  that gate two endpoints or validate a flag. Every \<^verbatim>\<open>async\<close> function becomes a
  function from the world before the call to its outcome and the world after it; a
  \<^verbatim>\<open>throw\<close> is the outcome \<open>Inl\<close>.
\<close>

subsection \<open>Thrown values\<close>

text \<open>
  What a \<^verbatim>\<open>catch\<close> clause can receive: a \<^verbatim>\<open>BoardAccessError\<close> (which extends
  \<^verbatim>\<open>Error\<close>), any other \<^verbatim>\<open>Error\<close>, both with their \<^verbatim>\<open>message\<close>, or a value
  that is no \<^verbatim>\<open>Error\<close> at all, given by its \<^verbatim>\<open>String(...)\<close>.
\<close>

datatype thrown = BoardAccessError string | Error string | Thrown string

fun instanceof_BoardAccessError :: "thrown \<Rightarrow> bool" where
  "instanceof_BoardAccessError (BoardAccessError m) = True"
| "instanceof_BoardAccessError (Error m) = False"
| "instanceof_BoardAccessError (Thrown v) = False"

fun instanceof_Error :: "thrown \<Rightarrow> bool" where
  "instanceof_Error (BoardAccessError m) = True"
| "instanceof_Error (Error m) = True"
| "instanceof_Error (Thrown v) = False"

text \<open>\<^verbatim>\<open>error instanceof Error ? error.message : String(error)\<close>\<close>

fun error_text :: "thrown \<Rightarrow> string" where
  "error_text (BoardAccessError m) = m"
| "error_text (Error m) = m"
| "error_text (Thrown v) = v"

text \<open>
  A template literal prints an absent value as \<^verbatim>\<open>undefined\<close>; the non-null assertion
  \<^verbatim>\<open>config.trello.allowedBoardsKey!\<close> checks nothing at run time.
\<close>

fun template :: "string option \<Rightarrow> string" where
  "template None = ''undefined''"
| "template (Some v) = v"

text \<open>The constructor of \<^verbatim>\<open>BoardAccessError\<close>: the three arguments live on in the message only.\<close>

definition new_BoardAccessError :: "string \<Rightarrow> string \<Rightarrow> string \<Rightarrow> thrown" where
  "new_BoardAccessError boardId operation allowedBoardsKey =
     BoardAccessError (''Access denied: Operation '' @ [CHR 0x27] @ operation @ [CHR 0x27]
       @ '' on board '' @ [CHR 0x27] @ boardId @ [CHR 0x27]
       @ '' is not allowed by the configured access control group: ''
       @ [CHR 0x22] @ allowedBoardsKey @ [CHR 0x22])"

subsection \<open>Configuration\<close>

text \<open>
  The fields of \<^verbatim>\<open>Config\<close> that the gate reads: \<^verbatim>\<open>config.trello\<close> with its optional
  path, key and computed list of allowed board ids, and \<^verbatim>\<open>config.debug\<close>. The API keys,
  the service URL, the timeout and the log level are read by no function below.
\<close>

record TrelloConfig =
  configPath :: "string option"
  allowedBoardsKey :: "string option"
  allowedBoardIds :: "string list option"

record Config =
  trello :: TrelloConfig
  debug :: bool

text \<open>Truthiness of an optional string: absent and the empty string are falsy.\<close>

fun truthy_string :: "string option \<Rightarrow> bool" where
  "truthy_string None = False"
| "truthy_string (Some v) = (v \<noteq> [])"

text \<open>\<^verbatim>\<open>Array.prototype.join\<close> on strings.\<close>

fun join :: "string \<Rightarrow> string list \<Rightarrow> string" where
  "join sep [] = []"
| "join sep [x] = x"
| "join sep (x # y # ys) = x @ sep @ join sep (y # ys)"

subsection \<open>The resource services and the world\<close>

text \<open>
  The entities as far as the gate reads them: a board by its \<^verbatim>\<open>id\<close>, a card or a list
  by its \<^verbatim>\<open>id\<close> and its \<^verbatim>\<open>idBoard\<close>.
\<close>

record board =
  board_id :: string

record entity =
  entity_id :: string
  idBoard :: string

text \<open>
  The services behind \<^verbatim>\<open>ServiceFactory\<close> are not part of the gate: they are a
  parameter. Each call reads and may change the remote system \<open>'r\<close>, and either returns
  or throws.
\<close>

record 'r services =
  getBoard :: "string \<Rightarrow> 'r \<Rightarrow> (thrown + board) \<times> 'r"
  getCard :: "string \<Rightarrow> 'r \<Rightarrow> (thrown + entity) \<times> 'r"
  getList :: "string \<Rightarrow> 'r \<Rightarrow> (thrown + entity) \<times> 'r"
  moveCardToList :: "string \<Rightarrow> string \<Rightarrow> 'r \<Rightarrow> (thrown + entity) \<times> 'r"
  moveListToBoard :: "string \<Rightarrow> string \<Rightarrow> 'r \<Rightarrow> (thrown + entity) \<times> 'r"
  deleteCard :: "string \<Rightarrow> 'r \<Rightarrow> (thrown + unit) \<times> 'r"
  moveAllCards :: "string \<Rightarrow> string \<Rightarrow> string option \<Rightarrow> 'r \<Rightarrow> (thrown + unit) \<times> 'r"

text \<open>The service calls a run has issued, in order.\<close>

datatype call =
    GetBoard string
  | GetCard string
  | GetList string
  | MoveCardToList string string
  | MoveListToBoard string string
  | DeleteCard string
  | MoveAllCards string string "string option"

fun is_mutation :: "call \<Rightarrow> bool" where
  "is_mutation (GetBoard b) = False"
| "is_mutation (GetCard c) = False"
| "is_mutation (GetList l) = False"
| "is_mutation (MoveCardToList c l) = True"
| "is_mutation (MoveListToBoard l b) = True"
| "is_mutation (DeleteCard c) = True"
| "is_mutation (MoveAllCards a b c) = True"

text \<open>A line of \<^verbatim>\<open>console.error\<close>: a text, or a text followed by the caught value.\<close>

datatype console_entry = ConsoleError string | ConsoleErrorWith string thrown

text \<open>
  Everything a call of the gate can read or write: the module-level \<^verbatim>\<open>config\<close>, the
  module-level \<^verbatim>\<open>boardIdCache\<close>, the remote system, the service calls issued so far
  and the diagnostic output.
\<close>

record 'r world =
  config :: Config
  boardIdCache :: "string \<rightharpoonup> string"
  remote :: 'r
  calls :: "call list"
  console :: "console_entry list"

text \<open>Awaiting a service call: the call is recorded and the remote system moves on.\<close>

definition invoke :: "call \<Rightarrow> ('r \<Rightarrow> 'a \<times> 'r) \<Rightarrow> 'r world \<Rightarrow> 'a \<times> 'r world" where
  "invoke c f s =
     (case f (remote s) of (res, r') \<Rightarrow> (res, s\<lparr>remote := r', calls := calls s @ [c]\<rparr>))"

subsection \<open>\<^verbatim>\<open>board-access-control.ts\<close>\<close>

definition fetchBoardNormalId ::
  "'r services \<Rightarrow> string \<Rightarrow> 'r world \<Rightarrow> (thrown + string) \<times> 'r world" where
  "fetchBoardNormalId sv shortOrNormalID s =
     (case boardIdCache s shortOrNormalID of
        Some cachedId \<Rightarrow> (Inr cachedId, s)
      | None \<Rightarrow>
          (case invoke (GetBoard shortOrNormalID) (getBoard sv shortOrNormalID) s of
             (Inr b, s1) \<Rightarrow>
               (Inr (board_id b),
                s1\<lparr>boardIdCache := (boardIdCache s1)(shortOrNormalID \<mapsto> board_id b)\<rparr>)
           | (Inl error, s1) \<Rightarrow>
               (Inl (new_BoardAccessError shortOrNormalID ''getBoard'' ''board_not_found''), s1)))"

text \<open>The two lines written to the console when a denial is logged.\<close>

definition unauthorized_log :: "Config \<Rightarrow> string \<Rightarrow> string \<Rightarrow> string list \<Rightarrow> console_entry list" where
  "unauthorized_log cfg operation boardId ids =
     (let configSource =
        (if truthy_string (configPath (trello cfg)) \<and> truthy_string (allowedBoardsKey (trello cfg))
         then ''YAML config ('' @ template (configPath (trello cfg)) @ '':''
                @ template (allowedBoardsKey (trello cfg)) @ '')''
         else ''configuration'')
      in [ConsoleError (''[UNAUTHORIZED] Attempted '' @ operation @ '' on board '' @ boardId
            @ '' which is not in the allowed list from '' @ configSource @ ''.''),
          ConsoleError (''[UNAUTHORIZED] Allowed board IDs: '' @ join '', '' ids)])"

definition checkBoardAccess ::
  "'r services \<Rightarrow> string \<Rightarrow> string \<Rightarrow> bool \<Rightarrow> 'r world \<Rightarrow> (thrown + bool) \<times> 'r world" where
  "checkBoardAccess sv boardId operation fetchNormalBoardId s =
     (case (if fetchNormalBoardId then fetchBoardNormalId sv boardId s else (Inr boardId, s)) of
        (Inl error, s1) \<Rightarrow> (Inl error, s1)
      | (Inr boardId', s1) \<Rightarrow>
          (case allowedBoardIds (trello (config s1)) of
             None \<Rightarrow> (Inr True, s1)
           | Some ids \<Rightarrow>
               if length ids = 0 then (Inr True, s1)
               else if boardId' \<in> set ids then (Inr True, s1)
               else
                 (Inl (new_BoardAccessError boardId' operation
                         (template (allowedBoardsKey (trello (config s1))))),
                  if debug (config s1)
                  then s1\<lparr>console := console s1 @ unauthorized_log (config s1) operation boardId' ids\<rparr>
                  else s1)))"

subsection \<open>\<^verbatim>\<open>card-access-control.ts\<close>\<close>

text \<open>
  The \<^verbatim>\<open>catch\<close> clause of \<^verbatim>\<open>checkCardAccess\<close> and \<^verbatim>\<open>checkListAccess\<close>, which differ in
  the word \<^verbatim>\<open>card\<close> or \<^verbatim>\<open>list\<close> only: a \<^verbatim>\<open>BoardAccessError\<close> is thrown again as it is,
  anything else is logged and replaced by a new \<^verbatim>\<open>Error\<close>.
\<close>

definition access_catch ::
  "string \<Rightarrow> string \<Rightarrow> thrown \<Rightarrow> 'r world \<Rightarrow> (thrown + unit) \<times> 'r world" where
  "access_catch kind entityId error s =
     (if instanceof_BoardAccessError error then (Inl error, s)
      else
        (Inl (Error (''Unable to verify access for '' @ kind @ '' '' @ entityId @ '': ''
                @ error_text error)),
         s\<lparr>console := console s @
             [ConsoleErrorWith (''Error checking '' @ kind @ '' access for '' @ entityId @ '':'')
                error]\<rparr>))"

definition checkCardAccess ::
  "'r services \<Rightarrow> string \<Rightarrow> string \<Rightarrow> 'r world \<Rightarrow> (thrown + unit) \<times> 'r world" where
  "checkCardAccess sv cardId operation s =
     (case invoke (GetCard cardId) (getCard sv cardId) s of
        (Inl error, s1) \<Rightarrow> access_catch ''card'' cardId error s1
      | (Inr crd, s1) \<Rightarrow>
          (case checkBoardAccess sv (idBoard crd)
                  (operation @ '' (card '' @ cardId @ '')'') True s1 of
             (Inl error, s2) \<Rightarrow> access_catch ''card'' cardId error s2
           | (Inr ok, s2) \<Rightarrow> (Inr (), s2)))"

definition checkListAccess ::
  "'r services \<Rightarrow> string \<Rightarrow> string \<Rightarrow> 'r world \<Rightarrow> (thrown + unit) \<times> 'r world" where
  "checkListAccess sv listId operation s =
     (case invoke (GetList listId) (getList sv listId) s of
        (Inl error, s1) \<Rightarrow> access_catch ''list'' listId error s1
      | (Inr lst, s1) \<Rightarrow>
          (case checkBoardAccess sv (idBoard lst)
                  (operation @ '' (list '' @ listId @ '')'') True s1 of
             (Inl error, s2) \<Rightarrow> access_catch ''list'' listId error s2
           | (Inr ok, s2) \<Rightarrow> (Inr (), s2)))"

subsection \<open>Tool handlers\<close>

text \<open>
  A handler receives \<^verbatim>\<open>args: any\<close>; the fields it reads are its parameters here. The
  identifiers are strings, as the functions they are passed to declare them; the optional
  \<^verbatim>\<open>boardId\<close> of \<^verbatim>\<open>move_all_cards\<close> may be absent; \<^verbatim>\<open>confirm\<close> is only ever negated,
  so it is any JSON value.
\<close>

datatype js_value = JUndefined | JNull | JBool bool | JNumber int | JString string | JObject

fun truthy :: "js_value \<Rightarrow> bool" where
  "truthy JUndefined = False"
| "truthy JNull = False"
| "truthy (JBool b) = b"
| "truthy (JNumber n) = (n \<noteq> 0)"
| "truthy (JString v) = (v \<noteq> [])"
| "truthy JObject = True"

record status_result =
  success :: bool
  message :: string

definition delete_card ::
  "'r services \<Rightarrow> js_value \<Rightarrow> string \<Rightarrow> 'r world \<Rightarrow> (thrown + status_result) \<times> 'r world" where
  "delete_card sv confirm cardId s =
     (if \<not> truthy confirm
      then (Inl (Error ''Deletion requires confirmation. Set confirm: true to proceed.''), s)
      else
        (case checkCardAccess sv cardId ''delete_card'' s of
           (Inl error, s1) \<Rightarrow> (Inl error, s1)
         | (Inr u, s1) \<Rightarrow>
             (case invoke (DeleteCard cardId) (deleteCard sv cardId) s1 of
                (Inl error, s2) \<Rightarrow> (Inl error, s2)
              | (Inr u', s2) \<Rightarrow>
                  (Inr \<lparr>success = True, message = ''Card deleted successfully''\<rparr>, s2))))"

definition move_card_to_list ::
  "'r services \<Rightarrow> string \<Rightarrow> string \<Rightarrow> 'r world \<Rightarrow> (thrown + entity) \<times> 'r world" where
  "move_card_to_list sv cardId listId s =
     (case checkCardAccess sv cardId ''move_card_to_list'' s of
        (Inl error, s1) \<Rightarrow> (Inl error, s1)
      | (Inr u, s1) \<Rightarrow>
          (case checkListAccess sv listId ''move_card_to_list (target)'' s1 of
             (Inl error, s2) \<Rightarrow> (Inl error, s2)
           | (Inr u', s2) \<Rightarrow>
               invoke (MoveCardToList cardId listId) (moveCardToList sv cardId listId) s2))"

definition move_list_to_board ::
  "'r services \<Rightarrow> string \<Rightarrow> string \<Rightarrow> 'r world \<Rightarrow> (thrown + entity) \<times> 'r world" where
  "move_list_to_board sv listId boardId s =
     (case checkListAccess sv listId ''move_list_to_board'' s of
        (Inl error, s1) \<Rightarrow> (Inl error, s1)
      | (Inr u, s1) \<Rightarrow>
          (case checkBoardAccess sv boardId ''move_list_to_board (target board)'' True s1 of
             (Inl error, s2) \<Rightarrow> (Inl error, s2)
           | (Inr ok, s2) \<Rightarrow>
               invoke (MoveListToBoard listId boardId) (moveListToBoard sv listId boardId) s2))"

text \<open>The optional third gate of \<^verbatim>\<open>move_all_cards\<close>: \<^verbatim>\<open>if (args.boardId) { ... }\<close>.\<close>

definition target_board_gate ::
  "'r services \<Rightarrow> string option \<Rightarrow> 'r world \<Rightarrow> (thrown + unit) \<times> 'r world" where
  "target_board_gate sv boardId s =
     (case boardId of
        None \<Rightarrow> (Inr (), s)
      | Some b \<Rightarrow>
          if truthy_string (Some b)
          then (case checkBoardAccess sv b ''move_all_cards (target board)'' True s of
                  (Inl error, s1) \<Rightarrow> (Inl error, s1)
                | (Inr ok, s1) \<Rightarrow> (Inr (), s1))
          else (Inr (), s))"

definition move_all_cards ::
  "'r services \<Rightarrow> string \<Rightarrow> string \<Rightarrow> string option \<Rightarrow> 'r world
     \<Rightarrow> (thrown + status_result) \<times> 'r world" where
  "move_all_cards sv sourceListId destinationListId boardId s =
     (case checkListAccess sv sourceListId ''move_all_cards (source)'' s of
        (Inl error, s1) \<Rightarrow> (Inl error, s1)
      | (Inr u, s1) \<Rightarrow>
          (case checkListAccess sv destinationListId ''move_all_cards (destination)'' s1 of
             (Inl error, s2) \<Rightarrow> (Inl error, s2)
           | (Inr u', s2) \<Rightarrow>
               (case target_board_gate sv boardId s2 of
                  (Inl error, s3) \<Rightarrow> (Inl error, s3)
                | (Inr u'', s3) \<Rightarrow>
                    (case invoke (MoveAllCards sourceListId destinationListId boardId)
                            (moveAllCards sv sourceListId destinationListId boardId) s3 of
                       (Inl error, s4) \<Rightarrow> (Inl error, s4)
                     | (Inr u''', s4) \<Rightarrow>
                         (Inr \<lparr>success = True,
                               message = ''All cards have been moved to the destination list''\<rparr>,
                          s4)))))"

subsection \<open>Observing the service calls\<close>

text \<open>
  Between two worlds no mutation was invoked: the calls of the first are still the
  beginning of the calls of the second, and the mutating calls among them are the same.
\<close>

definition quiet :: "'r world \<Rightarrow> 'r world \<Rightarrow> bool" where
  "quiet s s' \<longleftrightarrow> prefix (calls s) (calls s')
     \<and> filter is_mutation (calls s') = filter is_mutation (calls s)"

subsection \<open>A concrete deployment\<close>

text \<open>
  A remote system with the boards \<open>B1\<close> (also reachable by the short id \<open>b1short\<close>) and
  \<open>B3\<close>, the cards \<open>C1\<close> on \<open>B1\<close> and \<open>C3\<close> on \<open>B3\<close>, the lists \<open>L1\<close> on \<open>B1\<close>
  (which it reports by the short id) and \<open>L2\<close> on \<open>B3\<close>; a process configured with the allow-list \<open>B1, B2\<close>, and one without
  an allow-list. The theorems below are instantiated on them.
\<close>

definition ex_services :: "unit services" where
  "ex_services =
     \<lparr>getBoard = (\<lambda>i r.
         if i = ''B1'' \<or> i = ''b1short'' then (Inr \<lparr>board_id = ''B1''\<rparr>, r)
         else if i = ''B3'' then (Inr \<lparr>board_id = ''B3''\<rparr>, r)
         else (Inl (Error ''board not found''), r)),
       getCard = (\<lambda>i r.
         if i = ''C1'' then (Inr \<lparr>entity_id = ''C1'', idBoard = ''B1''\<rparr>, r)
         else if i = ''C3'' then (Inr \<lparr>entity_id = ''C3'', idBoard = ''B3''\<rparr>, r)
         else (Inl (Error ''card not found''), r)),
       getList = (\<lambda>i r.
         if i = ''L1'' then (Inr \<lparr>entity_id = ''L1'', idBoard = ''b1short''\<rparr>, r)
         else if i = ''L2'' then (Inr \<lparr>entity_id = ''L2'', idBoard = ''B3''\<rparr>, r)
         else (Inl (Error ''list not found''), r)),
       moveCardToList = (\<lambda>c l r. (Inr \<lparr>entity_id = c, idBoard = ''B1''\<rparr>, r)),
       moveListToBoard = (\<lambda>l b r. (Inr \<lparr>entity_id = l, idBoard = b\<rparr>, r)),
       deleteCard = (\<lambda>c r. (Inr (), r)),
       moveAllCards = (\<lambda>a b c r. (Inr (), r))\<rparr>"

definition ex_world :: "unit world" where
  "ex_world =
     \<lparr>config = \<lparr>trello = \<lparr>configPath = Some ''boards.yaml'', allowedBoardsKey = Some ''work'',
                             allowedBoardIds = Some [''B1'', ''B2'']\<rparr>,
                 debug = True\<rparr>,
       boardIdCache = Map.empty, remote = (), calls = [], console = []\<rparr>"

definition ex_open_world :: "unit world" where
  "ex_open_world =
     \<lparr>config = \<lparr>trello = \<lparr>configPath = None, allowedBoardsKey = None, allowedBoardIds = None\<rparr>,
                 debug = False\<rparr>,
       boardIdCache = Map.empty, remote = (), calls = [], console = []\<rparr>"

section \<open>Properties\<close>

subsection \<open>Frame lemmas\<close>

lemma invoke_config: "invoke c f s = (res, s') \<Longrightarrow> config s' = config s"
  by (auto simp: invoke_def split: prod.splits)

lemma invoke_cache: "invoke c f s = (res, s') \<Longrightarrow> boardIdCache s' = boardIdCache s"
  by (auto simp: invoke_def split: prod.splits)

lemma invoke_console: "invoke c f s = (res, s') \<Longrightarrow> console s' = console s"
  by (auto simp: invoke_def split: prod.splits)

lemma invoke_calls: "invoke c f s = (res, s') \<Longrightarrow> calls s' = calls s @ [c]"
  by (auto simp: invoke_def split: prod.splits)

lemma fetchBoardNormalId_error:
  "fetchBoardNormalId sv x s = (Inl e, s') \<Longrightarrow>
     e = new_BoardAccessError x ''getBoard'' ''board_not_found''"
  by (auto simp: fetchBoardNormalId_def split: option.splits prod.splits sum.splits)

lemma fetchBoardNormalId_config:
  "fetchBoardNormalId sv x s = (res, s') \<Longrightarrow> config s' = config s"
  by (auto simp: fetchBoardNormalId_def split: option.splits prod.splits sum.splits dest: invoke_config)

lemma checkBoardAccess_config:
  "checkBoardAccess sv b operation n s = (res, s') \<Longrightarrow> config s' = config s"
  by (auto simp: checkBoardAccess_def split: option.splits prod.splits sum.splits if_splits
      dest: fetchBoardNormalId_config)

lemma checkBoardAccess_error:
  "checkBoardAccess sv b operation n s = (Inl e, s') \<Longrightarrow> instanceof_BoardAccessError e"
  by (auto simp: checkBoardAccess_def new_BoardAccessError_def
      split: option.splits prod.splits sum.splits if_splits
      dest!: fetchBoardNormalId_error)

lemma sublist_mid: "ys = ps @ xs @ ss \<Longrightarrow> sublist xs ys"
  by (auto simp: sublist_def)

lemma carries_board:
  "sublist b (error_text (new_BoardAccessError b operation k))"
  unfolding new_BoardAccessError_def error_text.simps
  by (rule sublist_mid [where ps = "''Access denied: Operation '' @ [CHR 0x27] @ operation @ [CHR 0x27]
       @ '' on board '' @ [CHR 0x27]"]) simp

lemma carries_operation:
  "sublist operation (error_text (new_BoardAccessError b operation k))"
  unfolding new_BoardAccessError_def error_text.simps
  by (rule sublist_mid [where ps = "''Access denied: Operation '' @ [CHR 0x27]"]) simp

lemma carries_key:
  "sublist k (error_text (new_BoardAccessError b operation k))"
  unfolding new_BoardAccessError_def error_text.simps
  by (rule sublist_mid [where ss = "[CHR 0x22]"]) simp


lemma fetchBoardNormalId_console:
  "fetchBoardNormalId sv x s = (res, s') \<Longrightarrow> console s' = console s"
  by (auto simp: fetchBoardNormalId_def split: option.splits prod.splits sum.splits dest: invoke_console)

lemma fetchBoardNormalId_hit:
  "boardIdCache s x = Some c \<Longrightarrow> fetchBoardNormalId sv x s = (Inr c, s)"
  by (simp add: fetchBoardNormalId_def)

lemma fetchBoardNormalId_cache_step:
  "fetchBoardNormalId sv x s = (res, s1) \<Longrightarrow>
     (case res of Inl e \<Rightarrow> boardIdCache s1 = boardIdCache s
      | Inr c \<Rightarrow> boardIdCache s1 = (boardIdCache s)(x \<mapsto> c))"
  by (auto simp: fetchBoardNormalId_def split: option.splits prod.splits sum.splits
      dest: invoke_cache)

lemma fetchBoardNormalId_cache_le:
  "fetchBoardNormalId sv x s = (res, s1) \<Longrightarrow> boardIdCache s \<subseteq>\<^sub>m boardIdCache s1"
  by (cases "boardIdCache s x")
    (auto simp: fetchBoardNormalId_def invoke_def map_le_def split: prod.splits sum.splits)

lemma instanceof_new_BoardAccessError:
  "instanceof_BoardAccessError (new_BoardAccessError b operation k)"
  by (simp add: new_BoardAccessError_def)

lemma access_catch_BoardAccessError:
  "instanceof_BoardAccessError e \<Longrightarrow> access_catch kind i e s = (Inl e, s)"
  by (simp add: access_catch_def)

lemma access_catch_after_checkBoardAccess:
  "checkBoardAccess sv b operation n s = (Inl e, s') \<Longrightarrow> access_catch kind i e s' = (Inl e, s')"
  by (rule access_catch_BoardAccessError) (rule checkBoardAccess_error)

lemma checkCardAccess_fetched:
  assumes "getCard sv i (remote s) = (Inr k, r')"
  shows "checkCardAccess sv i operation s =
           (case checkBoardAccess sv (idBoard k) (operation @ '' (card '' @ i @ '')'') True
                   (s\<lparr>remote := r', calls := calls s @ [GetCard i]\<rparr>) of
              (Inl e, s2) \<Rightarrow> (Inl e, s2)
            | (Inr ok, s2) \<Rightarrow> (Inr (), s2))"
  using assms
  by (auto simp: checkCardAccess_def invoke_def split: prod.splits sum.splits
      dest: access_catch_after_checkBoardAccess)

lemma checkListAccess_fetched:
  assumes "getList sv i (remote s) = (Inr k, r')"
  shows "checkListAccess sv i operation s =
           (case checkBoardAccess sv (idBoard k) (operation @ '' (list '' @ i @ '')'') True
                   (s\<lparr>remote := r', calls := calls s @ [GetList i]\<rparr>) of
              (Inl e, s2) \<Rightarrow> (Inl e, s2)
            | (Inr ok, s2) \<Rightarrow> (Inr (), s2))"
  using assms
  by (auto simp: checkListAccess_def invoke_def split: prod.splits sum.splits
      dest: access_catch_after_checkBoardAccess)

lemma checkCardAccess_lookup_failed:
  assumes "getCard sv i (remote s) = (Inl cause, r')" and "\<not> instanceof_BoardAccessError cause"
  shows "fst (checkCardAccess sv i operation s) =
           Inl (Error (''Unable to verify access for card '' @ i @ '': '' @ error_text cause))"
  using assms by (simp add: checkCardAccess_def invoke_def access_catch_def)

lemma checkListAccess_lookup_failed:
  assumes "getList sv i (remote s) = (Inl cause, r')" and "\<not> instanceof_BoardAccessError cause"
  shows "fst (checkListAccess sv i operation s) =
           Inl (Error (''Unable to verify access for list '' @ i @ '': '' @ error_text cause))"
  using assms by (simp add: checkListAccess_def invoke_def access_catch_def)

lemma access_catch_error:
  "access_catch kind i cause s = (Inl e, s') \<Longrightarrow>
     instanceof_BoardAccessError e \<or>
     e = Error (''Unable to verify access for '' @ kind @ '' '' @ i @ '': '' @ error_text cause)"
  by (auto simp: access_catch_def split: if_splits)

lemma checkCardAccess_error:
  assumes "checkCardAccess sv i operation s = (Inl e, s')"
  shows "instanceof_BoardAccessError e \<or> (\<exists>m. e = Error (''Unable to verify access for '' @ m))"
proof -
  obtain r1 s1 where g: "invoke (GetCard i) (getCard sv i) s = (r1, s1)"
    by (cases "invoke (GetCard i) (getCard sv i) s")
  show ?thesis
  proof (cases r1)
    case (Inl cause)
    with assms g have "access_catch ''card'' i cause s1 = (Inl e, s')"
      by (simp add: checkCardAccess_def)
    from access_catch_error [OF this] show ?thesis by blast
  next
    case (Inr k)
    obtain r2 s2 where b: "checkBoardAccess sv (idBoard k)
        (operation @ '' (card '' @ i @ '')'') True s1 = (r2, s2)"
      by (cases "checkBoardAccess sv (idBoard k) (operation @ '' (card '' @ i @ '')'') True s1")
    with assms g Inr obtain cause where "access_catch ''card'' i cause s2 = (Inl e, s')"
      by (cases r2) (auto simp: checkCardAccess_def)
    from access_catch_error [OF this] show ?thesis by blast
  qed
qed

lemma checkListAccess_error:
  assumes "checkListAccess sv i operation s = (Inl e, s')"
  shows "instanceof_BoardAccessError e \<or> (\<exists>m. e = Error (''Unable to verify access for '' @ m))"
proof -
  obtain r1 s1 where g: "invoke (GetList i) (getList sv i) s = (r1, s1)"
    by (cases "invoke (GetList i) (getList sv i) s")
  show ?thesis
  proof (cases r1)
    case (Inl cause)
    with assms g have "access_catch ''list'' i cause s1 = (Inl e, s')"
      by (simp add: checkListAccess_def)
    from access_catch_error [OF this] show ?thesis by blast
  next
    case (Inr k)
    obtain r2 s2 where b: "checkBoardAccess sv (idBoard k)
        (operation @ '' (list '' @ i @ '')'') True s1 = (r2, s2)"
      by (cases "checkBoardAccess sv (idBoard k) (operation @ '' (list '' @ i @ '')'') True s1")
    with assms g Inr obtain cause where "access_catch ''list'' i cause s2 = (Inl e, s')"
      by (cases r2) (auto simp: checkListAccess_def)
    from access_catch_error [OF this] show ?thesis by blast
  qed
qed

lemma fst_eq_Inl: "fst p = Inl e \<Longrightarrow> \<exists>s'. p = (Inl e, s')"
  by (cases p) simp

subsection \<open>Gates issue no mutation\<close>

lemma quiet_refl: "quiet s s"
  by (simp add: quiet_def)

lemma quiet_trans: "quiet s s1 \<Longrightarrow> quiet s1 s2 \<Longrightarrow> quiet s s2"
  by (auto simp: quiet_def)

lemma quiet_invoke:
  "\<not> is_mutation c \<Longrightarrow> invoke c f s = (res, s') \<Longrightarrow> quiet s s'"
  by (auto simp: quiet_def invoke_def split: prod.splits)

lemma quiet_console: "quiet s s' \<Longrightarrow> quiet s (s'\<lparr>console := l\<rparr>)"
  by (simp add: quiet_def)

lemma quiet_cache: "quiet s s' \<Longrightarrow> quiet s (s'\<lparr>boardIdCache := m\<rparr>)"
  by (simp add: quiet_def)

lemma fetchBoardNormalId_quiet:
  "fetchBoardNormalId sv x s = (res, s') \<Longrightarrow> quiet s s'"
  by (auto simp: fetchBoardNormalId_def quiet_refl
      split: option.splits prod.splits sum.splits
      intro!: quiet_cache quiet_invoke [where c = "GetBoard x"])

lemma checkBoardAccess_quiet:
  "checkBoardAccess sv b operation n s = (res, s') \<Longrightarrow> quiet s s'"
  by (auto simp: checkBoardAccess_def quiet_refl
      split: option.splits prod.splits sum.splits if_splits
      intro!: quiet_console dest: fetchBoardNormalId_quiet)

lemma access_catch_quiet:
  "access_catch kind i e s = (res, s') \<Longrightarrow> quiet s s'"
  by (auto simp: access_catch_def quiet_refl split: if_splits intro!: quiet_console)

lemma checkCardAccess_quiet:
  assumes "checkCardAccess sv i operation s = (res, s')"
  shows "quiet s s'"
proof -
  obtain r1 s1 where g: "invoke (GetCard i) (getCard sv i) s = (r1, s1)"
    by (cases "invoke (GetCard i) (getCard sv i) s")
  then have q1: "quiet s s1" by (rule quiet_invoke [rotated]) simp
  show ?thesis
  proof (cases r1)
    case (Inl e)
    with assms g have "access_catch ''card'' i e s1 = (res, s')"
      by (simp add: checkCardAccess_def)
    then show ?thesis using q1 by (blast intro: quiet_trans access_catch_quiet)
  next
    case (Inr k)
    obtain r2 s2 where b: "checkBoardAccess sv (idBoard k)
        (operation @ '' (card '' @ i @ '')'') True s1 = (r2, s2)"
      by (cases "checkBoardAccess sv (idBoard k) (operation @ '' (card '' @ i @ '')'') True s1")
    then have q2: "quiet s1 s2" by (rule checkBoardAccess_quiet)
    from assms g Inr b have "quiet s2 s'"
      by (cases r2) (auto simp: checkCardAccess_def quiet_refl dest: access_catch_quiet)
    with q1 q2 show ?thesis by (blast intro: quiet_trans)
  qed
qed

lemma checkListAccess_quiet:
  assumes "checkListAccess sv i operation s = (res, s')"
  shows "quiet s s'"
proof -
  obtain r1 s1 where g: "invoke (GetList i) (getList sv i) s = (r1, s1)"
    by (cases "invoke (GetList i) (getList sv i) s")
  then have q1: "quiet s s1" by (rule quiet_invoke [rotated]) simp
  show ?thesis
  proof (cases r1)
    case (Inl e)
    with assms g have "access_catch ''list'' i e s1 = (res, s')"
      by (simp add: checkListAccess_def)
    then show ?thesis using q1 by (blast intro: quiet_trans access_catch_quiet)
  next
    case (Inr k)
    obtain r2 s2 where b: "checkBoardAccess sv (idBoard k)
        (operation @ '' (list '' @ i @ '')'') True s1 = (r2, s2)"
      by (cases "checkBoardAccess sv (idBoard k) (operation @ '' (list '' @ i @ '')'') True s1")
    then have q2: "quiet s1 s2" by (rule checkBoardAccess_quiet)
    from assms g Inr b have "quiet s2 s'"
      by (cases r2) (auto simp: checkListAccess_def quiet_refl dest: access_catch_quiet)
    with q1 q2 show ?thesis by (blast intro: quiet_trans)
  qed
qed

subsection \<open>Evaluating the concrete deployment\<close>

lemmas ex_eval = instanceof_new_BoardAccessError ex_services_def ex_world_def checkCardAccess_def checkListAccess_def
  checkBoardAccess_def fetchBoardNormalId_def invoke_def access_catch_def

subsection \<open>The board access gate\<close>

text \<open>
  C1. With a non-empty allow-list configured, \<^verbatim>\<open>checkBoardAccess\<close> returns \<^verbatim>\<open>true\<close>
  exactly when the canonical board id (the argument itself when normalisation is off, the
  resolved id when it is on) is an element of the allow-list. Otherwise it throws the
  \<^verbatim>\<open>BoardAccessError\<close> built from that board id, the operation label and the key
  \<^verbatim>\<open>config.trello.allowedBoardsKey\<close>, and all three occur in its message.
\<close>

theorem checkBoardAccess_allow_list:
  assumes "allowedBoardIds (trello (config s)) = Some ids" and "ids \<noteq> []"
    and "(if fetchNormal then fetchBoardNormalId sv boardId s else (Inr boardId, s)) = (Inr canonical, s1)"
  shows "fst (checkBoardAccess sv boardId operation fetchNormal s) =
           (if canonical \<in> set ids then Inr True
            else Inl (new_BoardAccessError canonical operation
                        (template (allowedBoardsKey (trello (config s))))))
         \<and> sublist canonical (error_text (new_BoardAccessError canonical operation
                        (template (allowedBoardsKey (trello (config s))))))
         \<and> sublist operation (error_text (new_BoardAccessError canonical operation
                        (template (allowedBoardsKey (trello (config s))))))
         \<and> sublist (template (allowedBoardsKey (trello (config s))))
              (error_text (new_BoardAccessError canonical operation
                        (template (allowedBoardsKey (trello (config s))))))"
proof -
  have cfg: "config s1 = config s"
    using assms(3) by (auto split: if_splits dest: fetchBoardNormalId_config)
  have "fst (checkBoardAccess sv boardId operation fetchNormal s) =
           (if canonical \<in> set ids then Inr True
            else Inl (new_BoardAccessError canonical operation
                        (template (allowedBoardsKey (trello (config s))))))"
    using assms cfg by (simp add: checkBoardAccess_def)
  then show ?thesis
    by (simp add: carries_board carries_operation carries_key)
qed

theorem checkBoardAccess_allow_list_witness:
  "fst (checkBoardAccess ex_services ''B1'' ''op'' False ex_world) = Inr True
   \<and> fst (checkBoardAccess ex_services ''B3'' ''op'' False ex_world)
       = Inl (new_BoardAccessError ''B3'' ''op'' ''work'')
   \<and> fst (checkBoardAccess ex_services ''b1short'' ''op'' True ex_world) = Inr True
   \<and> fst (checkBoardAccess ex_services ''B3'' ''op'' True ex_world)
       = Inl (new_BoardAccessError ''B3'' ''op'' ''work'')
   \<and> sublist ''B3'' (error_text (new_BoardAccessError ''B3'' ''op'' ''work''))"
proof -
  have cfg: "allowedBoardIds (trello (config ex_world)) = Some [''B1'', ''B2'']"
    by (simp add: ex_world_def)
  have ne: "[''B1'', ''B2''] \<noteq> ([] :: string list)" by simp
  have f1: "(if False then fetchBoardNormalId ex_services ''B1'' ex_world else (Inr ''B1'', ex_world))
              = (Inr ''B1'', ex_world)" by simp
  have f2: "(if False then fetchBoardNormalId ex_services ''B3'' ex_world else (Inr ''B3'', ex_world))
              = (Inr ''B3'', ex_world)" by simp
  have f3: "(if True then fetchBoardNormalId ex_services ''b1short'' ex_world
             else (Inr ''b1short'', ex_world))
              = (Inr ''B1'', snd (fetchBoardNormalId ex_services ''b1short'' ex_world))"
    by (simp add: fetchBoardNormalId_def invoke_def ex_services_def ex_world_def)
  have f4: "(if True then fetchBoardNormalId ex_services ''B3'' ex_world
             else (Inr ''B3'', ex_world))
              = (Inr ''B3'', snd (fetchBoardNormalId ex_services ''B3'' ex_world))"
    by (simp add: fetchBoardNormalId_def invoke_def ex_services_def ex_world_def)
  show ?thesis
    using checkBoardAccess_allow_list [OF cfg ne f1, of "''op''"]
      checkBoardAccess_allow_list [OF cfg ne f2, of "''op''"]
      checkBoardAccess_allow_list [OF cfg ne f3, of "''op''"]
      checkBoardAccess_allow_list [OF cfg ne f4, of "''op''"]
    by (simp add: ex_world_def)
qed

text \<open>
  C2. When \<^verbatim>\<open>config.trello.allowedBoardIds\<close> is absent or empty, \<^verbatim>\<open>checkBoardAccess\<close>
  returns \<^verbatim>\<open>true\<close> for every board id and operation: at once and in the same world
  when normalisation is off, and in the world the resolution left when normalisation is
  on and the identifier resolves. The only error it can throw in this state is the one of
  a failed resolution.
\<close>

theorem checkBoardAccess_open:
  assumes "allowedBoardIds (trello (config s)) = None \<or> allowedBoardIds (trello (config s)) = Some []"
  shows "checkBoardAccess sv boardId operation fetchNormal s =
           (if fetchNormal
            then (case fetchBoardNormalId sv boardId s of
                    (Inl e, s1) \<Rightarrow> (Inl e, s1)
                  | (Inr canonical, s1) \<Rightarrow> (Inr True, s1))
            else (Inr True, s))"
proof (cases fetchNormal)
  case True
  obtain r1 s1 where f: "fetchBoardNormalId sv boardId s = (r1, s1)"
    by (cases "fetchBoardNormalId sv boardId s")
  from fetchBoardNormalId_config [OF f] assms
  have "allowedBoardIds (trello (config s1)) = None \<or> allowedBoardIds (trello (config s1)) = Some []"
    by simp
  with True f show ?thesis
    by (auto simp: checkBoardAccess_def split: sum.splits)
next
  case False
  with assms show ?thesis
    by (auto simp: checkBoardAccess_def)
qed

theorem checkBoardAccess_open_witness:
  "checkBoardAccess ex_services ''B3'' ''op'' False ex_open_world = (Inr True, ex_open_world)
   \<and> fst (checkBoardAccess ex_services ''B3'' ''op'' True ex_open_world) = Inr True
   \<and> calls (snd (checkBoardAccess ex_services ''B3'' ''op'' True ex_open_world)) = [GetBoard ''B3'']"
proof -
  have cfg: "allowedBoardIds (trello (config ex_open_world)) = None
             \<or> allowedBoardIds (trello (config ex_open_world)) = Some []"
    by (simp add: ex_open_world_def)
  have f: "fetchBoardNormalId ex_services ''B3'' ex_open_world
            = (Inr ''B3'', ex_open_world\<lparr>remote := (), calls := [GetBoard ''B3''],
                 boardIdCache := [''B3'' \<mapsto> ''B3'']\<rparr>)"
    by (simp add: fetchBoardNormalId_def invoke_def ex_services_def ex_open_world_def)
  show ?thesis
    using checkBoardAccess_open [OF cfg, of ex_services "''B3''" "''op''" False]
      checkBoardAccess_open [OF cfg, of ex_services "''B3''" "''op''" True]
    by (simp add: f)
qed

text \<open>
  C9. A call of \<^verbatim>\<open>checkBoardAccess\<close> leaves \<^verbatim>\<open>config\<close>, and so the allow-list and its
  provenance, as it was. Apart from the lines a logged denial writes to the console, the
  world after the call is the world after the normalisation step when normalisation is
  on, and the world before the call when it is off: then the cache, the remote system
  and the list of service calls are untouched. The console itself changes only when
  \<^verbatim>\<open>config.debug\<close> is set and the call throws.
\<close>

theorem checkBoardAccess_frame:
  assumes "checkBoardAccess sv boardId operation fetchNormal s = (res, s')"
  shows "config s' = config s
         \<and> s'\<lparr>console := console s\<rparr>
             = (if fetchNormal then snd (fetchBoardNormalId sv boardId s) else s)
         \<and> (if fetchNormal then boardIdCache s \<subseteq>\<^sub>m boardIdCache s'
             else boardIdCache s' = boardIdCache s \<and> calls s' = calls s \<and> remote s' = remote s)
         \<and> ((debug (config s) \<and> isl res) \<or> console s' = console s)"
proof -
  obtain r1 s1 where f: "fetchBoardNormalId sv boardId s = (r1, s1)"
    by (cases "fetchBoardNormalId sv boardId s")
  note fc = fetchBoardNormalId_console [OF f] fetchBoardNormalId_config [OF f]
    fetchBoardNormalId_cache_le [OF f]
  show ?thesis
  proof (cases fetchNormal)
    case True
    with assms f fc show ?thesis
      by (auto simp: checkBoardAccess_def split: sum.splits option.splits if_splits)
  next
    case False
    with assms show ?thesis
      by (auto simp: checkBoardAccess_def split: sum.splits option.splits if_splits)
  qed
qed

theorem checkBoardAccess_frame_witness:
  "config (snd (checkBoardAccess ex_services ''B3'' ''op'' False ex_world)) = config ex_world
   \<and> (snd (checkBoardAccess ex_services ''B3'' ''op'' False ex_world))\<lparr>console := console ex_world\<rparr>
       = ex_world
   \<and> calls (snd (checkBoardAccess ex_services ''B3'' ''op'' False ex_world)) = []
   \<and> (snd (checkBoardAccess ex_services ''b1short'' ''op'' True ex_world))\<lparr>console := console ex_world\<rparr>
       = snd (fetchBoardNormalId ex_services ''b1short'' ex_world)
   \<and> console (snd (checkBoardAccess ex_services ''b1short'' ''op'' True ex_world)) = []"
proof -
  have a: "checkBoardAccess ex_services ''B3'' ''op'' False ex_world
            = (fst (checkBoardAccess ex_services ''B3'' ''op'' False ex_world),
               snd (checkBoardAccess ex_services ''B3'' ''op'' False ex_world))" by simp
  have b: "checkBoardAccess ex_services ''b1short'' ''op'' True ex_world
            = (fst (checkBoardAccess ex_services ''b1short'' ''op'' True ex_world),
               snd (checkBoardAccess ex_services ''b1short'' ''op'' True ex_world))" by simp
  have nb: "\<not> isl (fst (checkBoardAccess ex_services ''b1short'' ''op'' True ex_world))"
    by (simp add: checkBoardAccess_def fetchBoardNormalId_def invoke_def ex_services_def ex_world_def)
  have c: "calls ex_world = []" "console ex_world = []" by (simp_all add: ex_world_def)
  from checkBoardAccess_frame [OF a] checkBoardAccess_frame [OF b] nb c
  show ?thesis by simp
qed


subsection \<open>The identifier cache\<close>

text \<open>
  C3 (as the code has it). When the identifier is not cached and \<^verbatim>\<open>getBoard\<close> throws,
  \<^verbatim>\<open>fetchBoardNormalId\<close> throws a \<^verbatim>\<open>BoardAccessError\<close>, the class of an access denial,
  built from the input identifier, the operation \<^verbatim>\<open>getBoard\<close> and the key
  \<^verbatim>\<open>board_not_found\<close>; the identifier and the operation occur in its message. The lookup
  is recorded, and the cache is the one before the call.
\<close>

theorem fetchBoardNormalId_failure:
  assumes "boardIdCache s x = None" and "getBoard sv x (remote s) = (Inl cause, r')"
  shows "fetchBoardNormalId sv x s =
           (Inl (new_BoardAccessError x ''getBoard'' ''board_not_found''),
            s\<lparr>remote := r', calls := calls s @ [GetBoard x]\<rparr>)
         \<and> instanceof_BoardAccessError (new_BoardAccessError x ''getBoard'' ''board_not_found'')
         \<and> sublist x (error_text (new_BoardAccessError x ''getBoard'' ''board_not_found''))
         \<and> sublist ''getBoard'' (error_text (new_BoardAccessError x ''getBoard'' ''board_not_found''))
         \<and> boardIdCache (snd (fetchBoardNormalId sv x s)) = boardIdCache s"
  using assms
  by (simp add: fetchBoardNormalId_def invoke_def carries_board carries_operation)
    (simp add: new_BoardAccessError_def)

theorem fetchBoardNormalId_failure_witness:
  "fetchBoardNormalId ex_services ''B9'' ex_world =
     (Inl (new_BoardAccessError ''B9'' ''getBoard'' ''board_not_found''),
      ex_world\<lparr>remote := (), calls := calls ex_world @ [GetBoard ''B9'']\<rparr>)
   \<and> boardIdCache (snd (fetchBoardNormalId ex_services ''B9'' ex_world)) ''B9'' = None"
proof -
  have a: "boardIdCache ex_world ''B9'' = None" by (simp add: ex_world_def)
  have b: "getBoard ex_services ''B9'' (remote ex_world) = (Inl (Error ''board not found''), ())"
    by (simp add: ex_services_def)
  show ?thesis using fetchBoardNormalId_failure [OF a b] a by simp
qed

text \<open>
  C3 (as stated) asks for an error distinct from an access denial. The error thrown for
  the unknown board \<open>B9\<close> is an instance of \<^verbatim>\<open>BoardAccessError\<close>, and it is the very value
  that \<^verbatim>\<open>checkBoardAccess\<close> throws when it denies the operation \<^verbatim>\<open>getBoard\<close> on \<open>B9\<close>
  under an allow-list whose key is \<^verbatim>\<open>board_not_found\<close>.
\<close>

theorem fetchBoardNormalId_failure_counterexample:
  "fst (fetchBoardNormalId ex_services ''B9'' ex_world)
     = Inl (new_BoardAccessError ''B9'' ''getBoard'' ''board_not_found'')
   \<and> instanceof_BoardAccessError (new_BoardAccessError ''B9'' ''getBoard'' ''board_not_found'')
   \<and> fst (checkBoardAccess ex_services ''B9'' ''getBoard'' False
            (ex_world\<lparr>config := \<lparr>trello = \<lparr>configPath = Some ''boards.yaml'',
                allowedBoardsKey = Some ''board_not_found'', allowedBoardIds = Some [''B1'']\<rparr>,
                debug = False\<rparr>\<rparr>))
     = Inl (new_BoardAccessError ''B9'' ''getBoard'' ''board_not_found'')"
  by (simp add: fetchBoardNormalId_def checkBoardAccess_def invoke_def ex_services_def ex_world_def
      new_BoardAccessError_def)

text \<open>
  C6. Every call of \<^verbatim>\<open>fetchBoardNormalId\<close> keeps the entries the cache had; a call that
  throws leaves the cache as it was, and a call that returns \<open>c\<close> leaves the cache with
  the one entry for the input set to \<open>c\<close>. After a successful resolution, resolving the
  same input again, in any later world whose cache still extends that one and whatever
  the services now answer, returns the same \<open>c\<close> and leaves the world as it is: no service
  call is issued.
\<close>

theorem fetchBoardNormalId_idempotent:
  assumes "fetchBoardNormalId sv x s = (res, s1)" and "boardIdCache s1 \<subseteq>\<^sub>m boardIdCache s2"
  shows "boardIdCache s \<subseteq>\<^sub>m boardIdCache s1
         \<and> (case res of
               Inl e \<Rightarrow> boardIdCache s1 = boardIdCache s
             | Inr c \<Rightarrow> boardIdCache s1 = (boardIdCache s)(x \<mapsto> c)
                        \<and> fetchBoardNormalId sv' x s2 = (Inr c, s2)
                        \<and> calls (snd (fetchBoardNormalId sv' x s2)) = calls s2)"
proof -
  note step = fetchBoardNormalId_cache_step [OF assms(1)]
  have "fetchBoardNormalId sv' x s2 = (Inr c, s2)" if "res = Inr c" for c
  proof -
    from step that have "boardIdCache s1 x = Some c" by simp
    with assms(2) have "boardIdCache s2 x = Some c"
      by (auto simp: map_le_def dom_def)
    then show ?thesis by (rule fetchBoardNormalId_hit)
  qed
  with step fetchBoardNormalId_cache_le [OF assms(1)] show ?thesis
    by (auto split: sum.splits)
qed

theorem fetchBoardNormalId_idempotent_witness:
  "fst (fetchBoardNormalId ex_services ''b1short'' ex_world) = Inr ''B1''
   \<and> fetchBoardNormalId (ex_services\<lparr>getBoard := (\<lambda>i r. (Inl (Error ''offline''), r))\<rparr>)
       ''b1short'' (snd (fetchBoardNormalId ex_services ''b1short'' ex_world))
     = (Inr ''B1'', snd (fetchBoardNormalId ex_services ''b1short'' ex_world))
   \<and> boardIdCache (snd (fetchBoardNormalId ex_services ''b1short'' ex_world))
     = (boardIdCache ex_world)(''b1short'' \<mapsto> ''B1'')
   \<and> boardIdCache (snd (fetchBoardNormalId ex_services ''B9'' ex_world)) = boardIdCache ex_world"
proof -
  have a: "fetchBoardNormalId ex_services ''b1short'' ex_world
            = (Inr ''B1'', snd (fetchBoardNormalId ex_services ''b1short'' ex_world))"
    by (simp add: fetchBoardNormalId_def invoke_def ex_services_def ex_world_def)
  have b: "fetchBoardNormalId ex_services ''B9'' ex_world
            = (Inl (new_BoardAccessError ''B9'' ''getBoard'' ''board_not_found''),
               snd (fetchBoardNormalId ex_services ''B9'' ex_world))"
    by (simp add: fetchBoardNormalId_def invoke_def ex_services_def ex_world_def)
  have c1: "fst (fetchBoardNormalId ex_services ''b1short'' ex_world) = Inr ''B1''"
    by (simp add: fetchBoardNormalId_def invoke_def ex_services_def ex_world_def)
  note h1 = fetchBoardNormalId_idempotent [OF a map_le_refl,
      of "ex_services\<lparr>getBoard := (\<lambda>i r. (Inl (Error ''offline''), r))\<rparr>", unfolded sum.case]
  note h2 = fetchBoardNormalId_idempotent [OF b map_le_refl, unfolded sum.case]
  from c1 h1 h2 show ?thesis by blast
qed

subsection \<open>The entity access gate\<close>

text \<open>
  C4. When \<^verbatim>\<open>getCard\<close> (or \<^verbatim>\<open>getList\<close>) throws a value of the service's own, one that
  is no \<^verbatim>\<open>BoardAccessError\<close>, then \<^verbatim>\<open>checkCardAccess\<close> (\<^verbatim>\<open>checkListAccess\<close>) throws
  a plain \<^verbatim>\<open>Error\<close>, no \<^verbatim>\<open>BoardAccessError\<close>, whose message contains the entity id and
  the text of the cause. When the entity is fetched and the delegated \<^verbatim>\<open>checkBoardAccess\<close>
  throws \<open>e\<close>, the entity gate throws the same \<open>e\<close> and leaves the world that call left.
\<close>

theorem entity_access_errors:
  "(getCard sv i (remote s) = (Inl cause, r') \<and> \<not> instanceof_BoardAccessError cause \<longrightarrow>
      fst (checkCardAccess sv i operation s) =
        Inl (Error (''Unable to verify access for card '' @ i @ '': '' @ error_text cause))
      \<and> \<not> instanceof_BoardAccessError
            (Error (''Unable to verify access for card '' @ i @ '': '' @ error_text cause))
      \<and> sublist i (''Unable to verify access for card '' @ i @ '': '' @ error_text cause)
      \<and> sublist (error_text cause)
            (''Unable to verify access for card '' @ i @ '': '' @ error_text cause))
   \<and> (getList sv i (remote s) = (Inl cause, r') \<and> \<not> instanceof_BoardAccessError cause \<longrightarrow>
      fst (checkListAccess sv i operation s) =
        Inl (Error (''Unable to verify access for list '' @ i @ '': '' @ error_text cause))
      \<and> \<not> instanceof_BoardAccessError
            (Error (''Unable to verify access for list '' @ i @ '': '' @ error_text cause))
      \<and> sublist i (''Unable to verify access for list '' @ i @ '': '' @ error_text cause)
      \<and> sublist (error_text cause)
            (''Unable to verify access for list '' @ i @ '': '' @ error_text cause))
   \<and> (getCard sv i (remote s) = (Inr k, r')
       \<and> checkBoardAccess sv (idBoard k) (operation @ '' (card '' @ i @ '')'') True
            (s\<lparr>remote := r', calls := calls s @ [GetCard i]\<rparr>) = (Inl e, s2) \<longrightarrow>
      checkCardAccess sv i operation s = (Inl e, s2))
   \<and> (getList sv i (remote s) = (Inr k, r')
       \<and> checkBoardAccess sv (idBoard k) (operation @ '' (list '' @ i @ '')'') True
            (s\<lparr>remote := r', calls := calls s @ [GetList i]\<rparr>) = (Inl e, s2) \<longrightarrow>
      checkListAccess sv i operation s = (Inl e, s2))"
proof -
  have mid: "sublist i (p @ i @ q)" for p q :: string
    by (rule sublist_appendI)
  have last: "sublist c (p @ i @ q @ c)" for p q c :: string
    by (rule sublist_mid [where ss = "[]"]) simp
  have nb: "\<not> instanceof_BoardAccessError (Error m)" for m
    by simp
  show ?thesis
    apply (intro conjI impI)
             apply (erule conjE, erule (1) checkCardAccess_lookup_failed)
            apply (rule nb)
           apply (rule mid)
          apply (rule last)
         apply (erule conjE, erule (1) checkListAccess_lookup_failed)
        apply (rule nb)
       apply (rule mid)
      apply (rule last)
     apply (erule conjE, simp only: checkCardAccess_fetched prod.case sum.case)
    apply (erule conjE, simp only: checkListAccess_fetched prod.case sum.case)
    done
qed


theorem entity_access_errors_witness:
  "fst (checkCardAccess ex_services ''C9'' ''get_card'' ex_world)
     = Inl (Error ''Unable to verify access for card C9: card not found'')
   \<and> fst (checkListAccess ex_services ''L9'' ''get_list'' ex_world)
     = Inl (Error ''Unable to verify access for list L9: list not found'')
   \<and> fst (checkCardAccess ex_services ''C3'' ''get_card'' ex_world)
     = Inl (new_BoardAccessError ''B3'' ''get_card (card C3)'' ''work'')
   \<and> fst (checkListAccess ex_services ''L2'' ''get_list'' ex_world)
     = Inl (new_BoardAccessError ''B3'' ''get_list (list L2)'' ''work'')"
proof -
  have g1: "getCard ex_services ''C9'' (remote ex_world) = (Inl (Error ''card not found''), ())
            \<and> \<not> instanceof_BoardAccessError (Error ''card not found'')"
    by (simp add: ex_services_def)
  have g2: "getList ex_services ''L9'' (remote ex_world) = (Inl (Error ''list not found''), ())
            \<and> \<not> instanceof_BoardAccessError (Error ''list not found'')"
    by (simp add: ex_services_def)
  have g3: "getCard ex_services ''C3'' (remote ex_world)
              = (Inr \<lparr>entity_id = ''C3'', idBoard = ''B3''\<rparr>, ())
            \<and> checkBoardAccess ex_services (idBoard \<lparr>entity_id = ''C3'', idBoard = ''B3''\<rparr>)
                 (''get_card'' @ '' (card '' @ ''C3'' @ '')'') True
                 (ex_world\<lparr>remote := (), calls := calls ex_world @ [GetCard ''C3'']\<rparr>)
              = (Inl (new_BoardAccessError ''B3'' ''get_card (card C3)'' ''work''),
                 snd (checkBoardAccess ex_services ''B3'' ''get_card (card C3)'' True
                 (ex_world\<lparr>remote := (), calls := calls ex_world @ [GetCard ''C3'']\<rparr>)))"
    by (simp add: ex_services_def ex_world_def checkBoardAccess_def fetchBoardNormalId_def invoke_def)
  have g4: "getList ex_services ''L2'' (remote ex_world)
              = (Inr \<lparr>entity_id = ''L2'', idBoard = ''B3''\<rparr>, ())
            \<and> checkBoardAccess ex_services (idBoard \<lparr>entity_id = ''L2'', idBoard = ''B3''\<rparr>)
                 (''get_list'' @ '' (list '' @ ''L2'' @ '')'') True
                 (ex_world\<lparr>remote := (), calls := calls ex_world @ [GetList ''L2'']\<rparr>)
              = (Inl (new_BoardAccessError ''B3'' ''get_list (list L2)'' ''work''),
                 snd (checkBoardAccess ex_services ''B3'' ''get_list (list L2)'' True
                 (ex_world\<lparr>remote := (), calls := calls ex_world @ [GetList ''L2'']\<rparr>)))"
    by (simp add: ex_services_def ex_world_def checkBoardAccess_def fetchBoardNormalId_def invoke_def)
  note t = entity_access_errors [THEN conjunct1, rule_format, OF g1, THEN conjunct1]
    entity_access_errors [THEN conjunct2, THEN conjunct1, rule_format, OF g2, THEN conjunct1]
    entity_access_errors [THEN conjunct2, THEN conjunct2, THEN conjunct1, rule_format, OF g3]
    entity_access_errors [THEN conjunct2, THEN conjunct2, THEN conjunct2, rule_format, OF g4]
  from t show ?thesis by simp
qed

text \<open>
  C7. When \<^verbatim>\<open>getCard\<close> (or \<^verbatim>\<open>getList\<close>) returns an entity, the outcome of the entity gate
  is the outcome of \<^verbatim>\<open>checkBoardAccess\<close> on the entity's \<^verbatim>\<open>idBoard\<close>, with the operation
  label followed by \<^verbatim>\<open> (card <id>)\<close> (or \<^verbatim>\<open> (list <id>)\<close>) and with normalisation on, run
  in the world the fetch left; errors pass through as they are and \<^verbatim>\<open>true\<close> becomes
  \<^verbatim>\<open>void\<close>.
\<close>

theorem entity_gate_delegates:
  "(getCard sv i (remote s) = (Inr k, r') \<longrightarrow>
      checkCardAccess sv i operation s =
        (case checkBoardAccess sv (idBoard k) (operation @ '' (card '' @ i @ '')'') True
                (s\<lparr>remote := r', calls := calls s @ [GetCard i]\<rparr>) of
           (Inl e, s2) \<Rightarrow> (Inl e, s2)
         | (Inr ok, s2) \<Rightarrow> (Inr (), s2)))
   \<and> (getList sv i (remote s) = (Inr k, r') \<longrightarrow>
      checkListAccess sv i operation s =
        (case checkBoardAccess sv (idBoard k) (operation @ '' (list '' @ i @ '')'') True
                (s\<lparr>remote := r', calls := calls s @ [GetList i]\<rparr>) of
           (Inl e, s2) \<Rightarrow> (Inl e, s2)
         | (Inr ok, s2) \<Rightarrow> (Inr (), s2)))"
  by (intro conjI impI) (erule checkCardAccess_fetched, erule checkListAccess_fetched)

theorem entity_gate_delegates_witness:
  "checkCardAccess ex_services ''C1'' ''get_card'' ex_world
     = (case checkBoardAccess ex_services ''B1'' ''get_card (card C1)'' True
               (ex_world\<lparr>remote := (), calls := [GetCard ''C1'']\<rparr>) of
          (Inl e, s2) \<Rightarrow> (Inl e, s2)
        | (Inr ok, s2) \<Rightarrow> (Inr (), s2))
   \<and> checkListAccess ex_services ''L1'' ''get_list'' ex_world
     = (case checkBoardAccess ex_services ''b1short'' ''get_list (list L1)'' True
               (ex_world\<lparr>remote := (), calls := [GetList ''L1'']\<rparr>) of
          (Inl e, s2) \<Rightarrow> (Inl e, s2)
        | (Inr ok, s2) \<Rightarrow> (Inr (), s2))
   \<and> fst (checkListAccess ex_services ''L1'' ''get_list'' ex_world) = Inr ()
   \<and> calls (snd (checkListAccess ex_services ''L1'' ''get_list'' ex_world))
     = [GetList ''L1'', GetBoard ''b1short'']"
proof -
  have g1: "getCard ex_services ''C1'' (remote ex_world)
              = (Inr \<lparr>entity_id = ''C1'', idBoard = ''B1''\<rparr>, ())"
    by (simp add: ex_services_def)
  have g2: "getList ex_services ''L1'' (remote ex_world)
              = (Inr \<lparr>entity_id = ''L1'', idBoard = ''b1short''\<rparr>, ())"
    by (simp add: ex_services_def)
  have c: "calls ex_world = []" by (simp add: ex_world_def)
  note t1 = entity_gate_delegates [THEN conjunct1, rule_format, OF g1, of "''get_card''"]
  note t2 = entity_gate_delegates [THEN conjunct2, rule_format, OF g2, of "''get_list''"]
  have e: "checkBoardAccess ex_services ''b1short'' ''get_list (list L1)'' True
               (ex_world\<lparr>remote := (), calls := [GetList ''L1'']\<rparr>)
            = (Inr True, ex_world\<lparr>remote := (), calls := [GetList ''L1'', GetBoard ''b1short''],
                 boardIdCache := [''b1short'' \<mapsto> ''B1'']\<rparr>)"
    by (simp add: ex_services_def ex_world_def checkBoardAccess_def fetchBoardNormalId_def invoke_def)
  from t1 t2 c show ?thesis by (simp add: e)
qed

subsection \<open>Tool handlers\<close>

text \<open>
  C5. \<^verbatim>\<open>move_card_to_list\<close> checks the card first: when that check throws \<open>e\<close>, the
  handler throws \<open>e\<close> in the world the check left, so the list check has not run. When the
  card check passes and the check of the target list throws \<open>e\<close>, the handler throws \<open>e\<close>.
  In both cases no mutation was invoked. Only when both checks pass is \<^verbatim>\<open>moveCardToList\<close>
  invoked, in the world the second check left. \<^verbatim>\<open>move_list_to_board\<close> does the same with
  the check of the list followed by the check of the target board, before
  \<^verbatim>\<open>moveListToBoard\<close>.
\<close>

theorem composite_moves_gated:
  "(checkCardAccess sv c ''move_card_to_list'' s = (Inl e, s1) \<longrightarrow>
      move_card_to_list sv c l s = (Inl e, s1) \<and> quiet s s1)
   \<and> (checkCardAccess sv c ''move_card_to_list'' s = (Inr u, s1)
       \<and> checkListAccess sv l ''move_card_to_list (target)'' s1 = (Inl e, s2) \<longrightarrow>
      move_card_to_list sv c l s = (Inl e, s2) \<and> quiet s s2)
   \<and> (checkCardAccess sv c ''move_card_to_list'' s = (Inr u, s1)
       \<and> checkListAccess sv l ''move_card_to_list (target)'' s1 = (Inr u, s2) \<longrightarrow>
      move_card_to_list sv c l s
        = invoke (MoveCardToList c l) (moveCardToList sv c l) s2 \<and> quiet s s2)
   \<and> (checkListAccess sv l ''move_list_to_board'' s = (Inl e, s1) \<longrightarrow>
      move_list_to_board sv l b s = (Inl e, s1) \<and> quiet s s1)
   \<and> (checkListAccess sv l ''move_list_to_board'' s = (Inr u, s1)
       \<and> checkBoardAccess sv b ''move_list_to_board (target board)'' True s1 = (Inl e, s2) \<longrightarrow>
      move_list_to_board sv l b s = (Inl e, s2) \<and> quiet s s2)
   \<and> (checkListAccess sv l ''move_list_to_board'' s = (Inr u, s1)
       \<and> checkBoardAccess sv b ''move_list_to_board (target board)'' True s1 = (Inr ok, s2) \<longrightarrow>
      move_list_to_board sv l b s
        = invoke (MoveListToBoard l b) (moveListToBoard sv l b) s2 \<and> quiet s s2)"
  by (intro conjI impI; (elim conjE)?)
    (auto simp: move_card_to_list_def move_list_to_board_def
      intro: quiet_trans checkCardAccess_quiet checkListAccess_quiet checkBoardAccess_quiet)

theorem composite_moves_gated_witness:
  "fst (move_card_to_list ex_services ''C3'' ''L1'' ex_world)
     = Inl (new_BoardAccessError ''B3'' ''move_card_to_list (card C3)'' ''work'')
   \<and> calls (snd (move_card_to_list ex_services ''C3'' ''L1'' ex_world))
     = [GetCard ''C3'', GetBoard ''B3'']
   \<and> fst (move_card_to_list ex_services ''C1'' ''L2'' ex_world)
     = Inl (new_BoardAccessError ''B3'' ''move_card_to_list (target) (list L2)'' ''work'')
   \<and> calls (snd (move_card_to_list ex_services ''C1'' ''L2'' ex_world))
     = [GetCard ''C1'', GetBoard ''B1'', GetList ''L2'', GetBoard ''B3'']
   \<and> calls (snd (move_card_to_list ex_services ''C1'' ''L1'' ex_world))
     = [GetCard ''C1'', GetBoard ''B1'', GetList ''L1'', GetBoard ''b1short'',
        MoveCardToList ''C1'' ''L1'']
   \<and> fst (move_list_to_board ex_services ''L2'' ''B1'' ex_world)
     = Inl (new_BoardAccessError ''B3'' ''move_list_to_board (list L2)'' ''work'')
   \<and> calls (snd (move_list_to_board ex_services ''L2'' ''B1'' ex_world))
     = [GetList ''L2'', GetBoard ''B3'']
   \<and> fst (move_list_to_board ex_services ''L1'' ''B3'' ex_world)
     = Inl (new_BoardAccessError ''B3'' ''move_list_to_board (target board)'' ''work'')
   \<and> calls (snd (move_list_to_board ex_services ''L1'' ''B3'' ex_world))
     = [GetList ''L1'', GetBoard ''b1short'', GetBoard ''B3'']
   \<and> calls (snd (move_list_to_board ex_services ''L1'' ''B1'' ex_world))
     = [GetList ''L1'', GetBoard ''b1short'', GetBoard ''B1'', MoveListToBoard ''L1'' ''B1'']"
proof -
  let ?c3 = "checkCardAccess ex_services ''C3'' ''move_card_to_list'' ex_world"
  let ?c1 = "checkCardAccess ex_services ''C1'' ''move_card_to_list'' ex_world"
  let ?l2 = "checkListAccess ex_services ''L2'' ''move_card_to_list (target)'' (snd ?c1)"
  let ?l1 = "checkListAccess ex_services ''L1'' ''move_card_to_list (target)'' (snd ?c1)"
  let ?m2 = "checkListAccess ex_services ''L2'' ''move_list_to_board'' ex_world"
  let ?m1 = "checkListAccess ex_services ''L1'' ''move_list_to_board'' ex_world"
  let ?b3 = "checkBoardAccess ex_services ''B3'' ''move_list_to_board (target board)'' True (snd ?m1)"
  let ?b1 = "checkBoardAccess ex_services ''B1'' ''move_list_to_board (target board)'' True (snd ?m1)"
  have h1: "?c3 = (Inl (new_BoardAccessError ''B3'' ''move_card_to_list (card C3)'' ''work''), snd ?c3)"
    by (simp add: ex_eval)
  have h2: "?c1 = (Inr (), snd ?c1)
            \<and> ?l2 = (Inl (new_BoardAccessError ''B3'' ''move_card_to_list (target) (list L2)'' ''work''),
                     snd ?l2)"
    by (simp add: ex_eval)
  have h3: "?c1 = (Inr (), snd ?c1) \<and> ?l1 = (Inr (), snd ?l1)"
    by (simp add: ex_eval)
  have h4: "?m2 = (Inl (new_BoardAccessError ''B3'' ''move_list_to_board (list L2)'' ''work''), snd ?m2)"
    by (simp add: ex_eval)
  have h5: "?m1 = (Inr (), snd ?m1)
            \<and> ?b3 = (Inl (new_BoardAccessError ''B3'' ''move_list_to_board (target board)'' ''work''),
                     snd ?b3)"
    by (simp add: ex_eval)
  have h6: "?m1 = (Inr (), snd ?m1) \<and> ?b1 = (Inr True, snd ?b1)"
    by (simp add: ex_eval)
  note t1 = composite_moves_gated [THEN conjunct1, rule_format, OF h1, THEN conjunct1]
  note t2 = composite_moves_gated [THEN conjunct2, THEN conjunct1, rule_format, OF h2, THEN conjunct1]
  note t3 = composite_moves_gated [THEN conjunct2, THEN conjunct2, THEN conjunct1, rule_format,
      OF h3, THEN conjunct1]
  note t4 = composite_moves_gated [THEN conjunct2, THEN conjunct2, THEN conjunct2, THEN conjunct1,
      rule_format, OF h4, THEN conjunct1]
  note t5 = composite_moves_gated [THEN conjunct2, THEN conjunct2, THEN conjunct2, THEN conjunct2,
      THEN conjunct1, rule_format, OF h5, THEN conjunct1]
  note t6 = composite_moves_gated [THEN conjunct2, THEN conjunct2, THEN conjunct2, THEN conjunct2,
      THEN conjunct2, rule_format, OF h6, THEN conjunct1]
  have s1: "calls (snd ?c3) = [GetCard ''C3'', GetBoard ''B3'']" by (simp add: ex_eval)
  have s2: "calls (snd ?l2) = [GetCard ''C1'', GetBoard ''B1'', GetList ''L2'', GetBoard ''B3'']"
    by (simp add: ex_eval)
  have s3: "calls (snd ?l1) = [GetCard ''C1'', GetBoard ''B1'', GetList ''L1'', GetBoard ''b1short'']"
    by (simp add: ex_eval)
  have s4: "calls (snd ?m2) = [GetList ''L2'', GetBoard ''B3'']" by (simp add: ex_eval)
  have s5: "calls (snd ?b3) = [GetList ''L1'', GetBoard ''b1short'', GetBoard ''B3'']"
    by (simp add: ex_eval)
  have s6: "calls (snd ?b1) = [GetList ''L1'', GetBoard ''b1short'', GetBoard ''B1'']"
    by (simp add: ex_eval)
  have i3: "calls (snd (invoke c f s)) = calls s @ [c]" for c and f :: "unit \<Rightarrow> 'a \<times> unit" and s
    by (simp add: invoke_def split: prod.splits)
  show ?thesis
    unfolding t1 t2 t3 t4 t5 t6
    by (simp add: s1 s2 s3 s4 s5 s6 i3)
qed

text \<open>
  C8 (as the code has it). The handler tests \<^verbatim>\<open>!args.confirm\<close>. When \<^verbatim>\<open>args.confirm\<close> is
  falsy (absent, \<^verbatim>\<open>null\<close>, \<^verbatim>\<open>false\<close>, \<^verbatim>\<open>0\<close> or the empty string), \<^verbatim>\<open>delete_card\<close>
  throws the validation error and leaves the world as it was: neither \<^verbatim>\<open>checkCardAccess\<close>
  (whose first act is a call of \<^verbatim>\<open>getCard\<close>) nor \<^verbatim>\<open>deleteCard\<close> has run. The validation
  error is no \<^verbatim>\<open>BoardAccessError\<close>, and it differs from every error that
  \<^verbatim>\<open>checkCardAccess\<close>, \<^verbatim>\<open>checkListAccess\<close>, \<^verbatim>\<open>checkBoardAccess\<close> or
  \<^verbatim>\<open>fetchBoardNormalId\<close> can throw.
\<close>

theorem delete_card_requires_confirm:
  assumes "\<not> truthy confirm"
  shows "delete_card sv confirm cardId s
           = (Inl (Error ''Deletion requires confirmation. Set confirm: true to proceed.''), s)
         \<and> \<not> instanceof_BoardAccessError
               (Error ''Deletion requires confirmation. Set confirm: true to proceed.'')
         \<and> fst (checkCardAccess sv' i operation s0)
             \<noteq> Inl (Error ''Deletion requires confirmation. Set confirm: true to proceed.'')
         \<and> fst (checkListAccess sv' i operation s0)
             \<noteq> Inl (Error ''Deletion requires confirmation. Set confirm: true to proceed.'')
         \<and> fst (checkBoardAccess sv' i operation fetchNormal s0)
             \<noteq> Inl (Error ''Deletion requires confirmation. Set confirm: true to proceed.'')
         \<and> fst (fetchBoardNormalId sv' i s0)
             \<noteq> Inl (Error ''Deletion requires confirmation. Set confirm: true to proceed.'')"
proof -
  let ?v = "Error ''Deletion requires confirmation. Set confirm: true to proceed.''"
  have 1: "delete_card sv confirm cardId s = (Inl ?v, s)"
    using assms by (simp add: delete_card_def)
  have 2: "\<not> instanceof_BoardAccessError ?v" by simp
  have nu: "?v \<noteq> Error (''Unable to verify access for '' @ m)" for m by simp
  have 3: "fst (checkCardAccess sv' i operation s0) \<noteq> Inl ?v"
  proof
    assume "fst (checkCardAccess sv' i operation s0) = Inl ?v"
    then obtain s' where "checkCardAccess sv' i operation s0 = (Inl ?v, s')"
      by (blast dest: fst_eq_Inl)
    from checkCardAccess_error [OF this] 2 nu show False by blast
  qed
  have 4: "fst (checkListAccess sv' i operation s0) \<noteq> Inl ?v"
  proof
    assume "fst (checkListAccess sv' i operation s0) = Inl ?v"
    then obtain s' where "checkListAccess sv' i operation s0 = (Inl ?v, s')"
      by (blast dest: fst_eq_Inl)
    from checkListAccess_error [OF this] 2 nu show False by blast
  qed
  have 5: "fst (checkBoardAccess sv' i operation fetchNormal s0) \<noteq> Inl ?v"
  proof
    assume "fst (checkBoardAccess sv' i operation fetchNormal s0) = Inl ?v"
    then obtain s' where "checkBoardAccess sv' i operation fetchNormal s0 = (Inl ?v, s')"
      by (blast dest: fst_eq_Inl)
    from checkBoardAccess_error [OF this] 2 show False by blast
  qed
  have 6: "fst (fetchBoardNormalId sv' i s0) \<noteq> Inl ?v"
  proof
    assume "fst (fetchBoardNormalId sv' i s0) = Inl ?v"
    then obtain s' where "fetchBoardNormalId sv' i s0 = (Inl ?v, s')"
      by (blast dest: fst_eq_Inl)
    from fetchBoardNormalId_error [OF this] show False
      by (simp add: new_BoardAccessError_def)
  qed
  from 1 2 3 4 5 6 show ?thesis by blast
qed

theorem delete_card_requires_confirm_witness:
  "delete_card ex_services JUndefined ''C1'' ex_world
     = (Inl (Error ''Deletion requires confirmation. Set confirm: true to proceed.''), ex_world)
   \<and> delete_card ex_services (JBool False) ''C1'' ex_world
     = (Inl (Error ''Deletion requires confirmation. Set confirm: true to proceed.''), ex_world)
   \<and> calls (snd (delete_card ex_services (JBool False) ''C1'' ex_world)) = []
   \<and> calls (snd (delete_card ex_services (JBool True) ''C1'' ex_world))
     = [GetCard ''C1'', GetBoard ''B1'', DeleteCard ''C1'']"
proof -
  have a: "\<not> truthy JUndefined" and b: "\<not> truthy (JBool False)" by simp_all
  have c: "calls (snd (delete_card ex_services (JBool True) ''C1'' ex_world))
     = [GetCard ''C1'', GetBoard ''B1'', DeleteCard ''C1'']"
    by (simp add: delete_card_def ex_eval)
  have d: "calls ex_world = []" by (simp add: ex_world_def)
  from delete_card_requires_confirm [OF a, THEN conjunct1, of ex_services "''C1''" ex_world]
    delete_card_requires_confirm [OF b, THEN conjunct1, of ex_services "''C1''" ex_world] c d
  show ?thesis by simp
qed

text \<open>
  C8 (as stated) asks for the validation error whenever the flag is not \<^verbatim>\<open>true\<close>. The
  handler takes \<^verbatim>\<open>args: any\<close> and only negates the flag, so a truthy value that is not
  \<^verbatim>\<open>true\<close> passes: with \<^verbatim>\<open>confirm\<close> the string \<^verbatim>\<open>false\<close>, the access check runs and the
  card \<open>C1\<close> is deleted.
\<close>

theorem delete_card_requires_confirm_counterexample:
  "JString ''false'' \<noteq> JBool True
   \<and> fst (delete_card ex_services (JString ''false'') ''C1'' ex_world)
     = Inr \<lparr>success = True, message = ''Card deleted successfully''\<rparr>
   \<and> calls (snd (delete_card ex_services (JString ''false'') ''C1'' ex_world))
     = [GetCard ''C1'', GetBoard ''B1'', DeleteCard ''C1'']"
  by (simp add: delete_card_def ex_eval)

text \<open>
  C10. \<^verbatim>\<open>move_all_cards\<close> checks the source list, then the destination list; an error of
  either is the handler's error and no mutation was invoked. When both pass and
  \<^verbatim>\<open>args.boardId\<close> is absent (or the empty string, which is falsy as well),
  \<^verbatim>\<open>moveAllCards\<close> is the next service call after the two list checks: no board check
  runs. When \<^verbatim>\<open>args.boardId\<close> is a non-empty string, the target board is checked after
  the two lists: its error is the handler's error, with no mutation invoked, and only when
  it passes is \<^verbatim>\<open>moveAllCards\<close> invoked.
\<close>

theorem move_all_cards_gates:
  "(checkListAccess sv src ''move_all_cards (source)'' s = (Inl e, s1) \<longrightarrow>
      move_all_cards sv src dst boardId s = (Inl e, s1) \<and> quiet s s1)
   \<and> (checkListAccess sv src ''move_all_cards (source)'' s = (Inr u, s1)
       \<and> checkListAccess sv dst ''move_all_cards (destination)'' s1 = (Inl e, s2) \<longrightarrow>
      move_all_cards sv src dst boardId s = (Inl e, s2) \<and> quiet s s2)
   \<and> (checkListAccess sv src ''move_all_cards (source)'' s = (Inr u, s1)
       \<and> checkListAccess sv dst ''move_all_cards (destination)'' s1 = (Inr u, s2)
       \<and> \<not> truthy_string boardId \<longrightarrow>
      calls (snd (move_all_cards sv src dst boardId s)) = calls s2 @ [MoveAllCards src dst boardId]
      \<and> move_all_cards sv src dst boardId s
          = (case invoke (MoveAllCards src dst boardId) (moveAllCards sv src dst boardId) s2 of
               (Inl e', s4) \<Rightarrow> (Inl e', s4)
             | (Inr u', s4) \<Rightarrow>
                 (Inr \<lparr>success = True,
                       message = ''All cards have been moved to the destination list''\<rparr>, s4)))
   \<and> (checkListAccess sv src ''move_all_cards (source)'' s = (Inr u, s1)
       \<and> checkListAccess sv dst ''move_all_cards (destination)'' s1 = (Inr u, s2)
       \<and> boardId = Some b \<and> b \<noteq> []
       \<and> checkBoardAccess sv b ''move_all_cards (target board)'' True s2 = (Inl e, s3) \<longrightarrow>
      move_all_cards sv src dst boardId s = (Inl e, s3) \<and> quiet s s3)
   \<and> (checkListAccess sv src ''move_all_cards (source)'' s = (Inr u, s1)
       \<and> checkListAccess sv dst ''move_all_cards (destination)'' s1 = (Inr u, s2)
       \<and> boardId = Some b \<and> b \<noteq> []
       \<and> checkBoardAccess sv b ''move_all_cards (target board)'' True s2 = (Inr ok, s3) \<longrightarrow>
      calls (snd (move_all_cards sv src dst boardId s)) = calls s3 @ [MoveAllCards src dst (Some b)])"
  by (intro conjI impI; (elim conjE)?)
    (auto simp: move_all_cards_def target_board_gate_def invoke_def
      split: prod.splits sum.splits option.splits
      intro: checkListAccess_quiet
        quiet_trans [OF checkListAccess_quiet checkListAccess_quiet]
        quiet_trans [OF checkListAccess_quiet
          quiet_trans [OF checkListAccess_quiet checkBoardAccess_quiet]])


theorem move_all_cards_gates_witness:
  "fst (move_all_cards ex_services ''L2'' ''L1'' None ex_world)
     = Inl (new_BoardAccessError ''B3'' ''move_all_cards (source) (list L2)'' ''work'')
   \<and> calls (snd (move_all_cards ex_services ''L2'' ''L1'' None ex_world))
     = [GetList ''L2'', GetBoard ''B3'']
   \<and> fst (move_all_cards ex_services ''L1'' ''L2'' None ex_world)
     = Inl (new_BoardAccessError ''B3'' ''move_all_cards (destination) (list L2)'' ''work'')
   \<and> calls (snd (move_all_cards ex_services ''L1'' ''L2'' None ex_world))
     = [GetList ''L1'', GetBoard ''b1short'', GetList ''L2'', GetBoard ''B3'']
   \<and> calls (snd (move_all_cards ex_services ''L1'' ''L1'' None ex_world))
     = [GetList ''L1'', GetBoard ''b1short'', GetList ''L1'', MoveAllCards ''L1'' ''L1'' None]
   \<and> fst (move_all_cards ex_services ''L1'' ''L1'' (Some ''B3'') ex_world)
     = Inl (new_BoardAccessError ''B3'' ''move_all_cards (target board)'' ''work'')
   \<and> calls (snd (move_all_cards ex_services ''L1'' ''L1'' (Some ''B3'') ex_world))
     = [GetList ''L1'', GetBoard ''b1short'', GetList ''L1'', GetBoard ''B3'']
   \<and> calls (snd (move_all_cards ex_services ''L1'' ''L1'' (Some ''B1'') ex_world))
     = [GetList ''L1'', GetBoard ''b1short'', GetList ''L1'', GetBoard ''B1'',
        MoveAllCards ''L1'' ''L1'' (Some ''B1'')]"
proof -
  let ?a2 = "checkListAccess ex_services ''L2'' ''move_all_cards (source)'' ex_world"
  let ?a1 = "checkListAccess ex_services ''L1'' ''move_all_cards (source)'' ex_world"
  let ?d2 = "checkListAccess ex_services ''L2'' ''move_all_cards (destination)'' (snd ?a1)"
  let ?d1 = "checkListAccess ex_services ''L1'' ''move_all_cards (destination)'' (snd ?a1)"
  let ?b3 = "checkBoardAccess ex_services ''B3'' ''move_all_cards (target board)'' True (snd ?d1)"
  let ?b1 = "checkBoardAccess ex_services ''B1'' ''move_all_cards (target board)'' True (snd ?d1)"
  have h1: "?a2 = (Inl (new_BoardAccessError ''B3'' ''move_all_cards (source) (list L2)'' ''work''),
                   snd ?a2)"
    by (simp add: ex_eval)
  have h2: "?a1 = (Inr (), snd ?a1)
            \<and> ?d2 = (Inl (new_BoardAccessError ''B3'' ''move_all_cards (destination) (list L2)''
                            ''work''), snd ?d2)"
    by (simp add: ex_eval)
  have h3: "?a1 = (Inr (), snd ?a1) \<and> ?d1 = (Inr (), snd ?d1) \<and> \<not> truthy_string None"
    by (simp add: ex_eval)
  have h4: "?a1 = (Inr (), snd ?a1) \<and> ?d1 = (Inr (), snd ?d1)
            \<and> Some ''B3'' = Some ''B3'' \<and> ''B3'' \<noteq> []
            \<and> ?b3 = (Inl (new_BoardAccessError ''B3'' ''move_all_cards (target board)'' ''work''),
                     snd ?b3)"
    by (simp add: ex_eval)
  have h5: "?a1 = (Inr (), snd ?a1) \<and> ?d1 = (Inr (), snd ?d1)
            \<and> Some ''B1'' = Some ''B1'' \<and> ''B1'' \<noteq> []
            \<and> ?b1 = (Inr True, snd ?b1)"
    by (simp add: ex_eval)
  note t1 = move_all_cards_gates [THEN conjunct1, rule_format, OF h1, THEN conjunct1]
  note t2 = move_all_cards_gates [THEN conjunct2, THEN conjunct1, rule_format, OF h2, THEN conjunct1]
  note t3 = move_all_cards_gates [THEN conjunct2, THEN conjunct2, THEN conjunct1, rule_format,
      OF h3, THEN conjunct1]
  note t4 = move_all_cards_gates [THEN conjunct2, THEN conjunct2, THEN conjunct2, THEN conjunct1,
      rule_format, OF h4, THEN conjunct1]
  note t5 = move_all_cards_gates [THEN conjunct2, THEN conjunct2, THEN conjunct2, THEN conjunct2,
      rule_format, OF h5]
  have s1: "calls (snd ?a2) = [GetList ''L2'', GetBoard ''B3'']" by (simp add: ex_eval)
  have s2: "calls (snd ?d2) = [GetList ''L1'', GetBoard ''b1short'', GetList ''L2'', GetBoard ''B3'']"
    by (simp add: ex_eval)
  have s3: "calls (snd ?d1) = [GetList ''L1'', GetBoard ''b1short'', GetList ''L1'']"
    by (simp add: ex_eval)
  have s4: "calls (snd ?b3) = [GetList ''L1'', GetBoard ''b1short'', GetList ''L1'', GetBoard ''B3'']"
    by (simp add: ex_eval)
  have s5: "calls (snd ?b1) = [GetList ''L1'', GetBoard ''b1short'', GetList ''L1'', GetBoard ''B1'']"
    by (simp add: ex_eval)
  show ?thesis
    unfolding t1 t2 t3 t4 t5
    by (simp add: s1 s2 s3 s4 s5)
qed

end
